theory Spec2Isabelle
  imports Complex_Main "HOL-Library.Word"
begin

section \<open>OverlayFrameNumber: a shallow embedding of \<open>process\<close>\<close>

text \<open>
  The node \<open>OverlayFrameNumber.process\<close> (src/OverlayFrameNumber.py, lines 77 to 183)
  burns a frame counter into every frame of an image batch. Its own logic is embedded
  here as HOL functions. What the node calls in torch, numpy, Pillow and the operating
  system is kept as data of two records of functions, \<open>system\<close> and \<open>pillow\<close>, so that
  nothing about those libraries is assumed beyond the shape of their results. A call into
  a library that stands outside every handler can raise, and then \<open>process\<close> raises.
\<close>

subsection \<open>Python strings\<close>

text \<open>
  A Python \<open>str\<close> is a sequence of Unicode code points; a code point is a natural number.
  \<open>py\<close> turns a literal into that representation.
\<close>

type_synonym pystr = "nat list"

abbreviation py :: "string \<Rightarrow> pystr" where
  "py s \<equiv> map of_char s"

text \<open>\<open>str.isspace\<close> on one character: the code points Python treats as whitespace.\<close>

definition py_isspace :: "nat \<Rightarrow> bool" where
  "py_isspace c \<longleftrightarrow>
     (9 \<le> c \<and> c \<le> 13) \<or> (28 \<le> c \<and> c \<le> 32) \<or> c = 133 \<or> c = 160 \<or> c = 5760 \<or>
     (8192 \<le> c \<and> c \<le> 8202) \<or> c = 8232 \<or> c = 8233 \<or> c = 8239 \<or> c = 8287 \<or> c = 12288"

text \<open>\<open>str.strip()\<close>: leading and trailing whitespace removed.\<close>

definition py_strip :: "pystr \<Rightarrow> pystr" where
  "py_strip s = rev (dropWhile py_isspace (rev (dropWhile py_isspace s)))"

text \<open>\<open>str(n)\<close> for a non-negative integer: its decimal digits, most significant first.\<close>

fun py_str_nat :: "nat \<Rightarrow> pystr" where
  "py_str_nat n = (if n < 10 then [48 + n] else py_str_nat (n div 10) @ [48 + n mod 10])"

declare py_str_nat.simps [simp del]

text \<open>
  The format specification \<open>0{width}d\<close> applied to a non-negative integer: the decimal
  digits, padded on the left with the character 0 up to \<open>width\<close> characters.
\<close>

definition py_format_0d :: "nat \<Rightarrow> nat \<Rightarrow> pystr" where
  "py_format_0d width n =
     (let digits = py_str_nat n in replicate (width - length digits) 48 @ digits)"

subsection \<open>Arrays and tensors\<close>

text \<open>
  A numpy array: its shape and its elements by index. \<open>elem\<close> is read only at indices
  within the shape.
\<close>

record 'a ndarray =
  shape :: "nat list"
  elem :: "nat list \<Rightarrow> 'a"

text \<open>
  The class of an exception raised inside a library, as far as the handlers of
  \<open>process\<close> tell classes apart. Each name stands for the class with its subclasses
  (\<open>IOError\<close> is \<open>OSError\<close>), \<open>Class_other\<close> for every other exception.
\<close>

datatype py_class =
    Class_OSError | Class_AttributeError | Class_TypeError | Class_ValueError
  | Class_RuntimeError | Class_other

text \<open>
  A torch tensor: an array together with what \<open>.cpu().numpy()\<close> does on it and on its
  slices. The conversion raises a RuntimeError on a tensor that requires grad and a
  TypeError on a tensor whose dtype numpy does not have (bfloat16);
  \<open>cpu_numpy_raises\<close> is \<open>None\<close> for a tensor that converts.
\<close>

record 'a tensor = "'a ndarray" +
  cpu_numpy_raises :: "py_class option"

text \<open>
  \<open>a[i]\<close>: the sub-array at position \<open>i\<close> of the first dimension; a slice of a tensor
  keeps the attributes of the tensor.
\<close>

definition select :: "nat \<Rightarrow> ('a, 'm) ndarray_scheme \<Rightarrow> ('a, 'm) ndarray_scheme" where
  "select i a = a\<lparr>shape := tl (shape a), elem := (\<lambda>idx. elem a (i # idx))\<rparr>"

text \<open>An elementwise operation (\<open>a * 255\<close>, \<open>astype\<close>, \<open>a / 255.0\<close>).\<close>

definition map_elems :: "('a \<Rightarrow> 'b) \<Rightarrow> 'a ndarray \<Rightarrow> 'b ndarray" where
  "map_elems f a = \<lparr>shape = shape a, elem = (\<lambda>idx. f (elem a idx))\<rparr>"

text \<open>The indices an array of a given shape holds.\<close>

definition in_range :: "nat list \<Rightarrow> nat list \<Rightarrow> bool" where
  "in_range idx sh \<longleftrightarrow> list_all2 (<) idx sh"

subsection \<open>Errors\<close>

text \<open>
  What \<open>process\<close> raises: its own two ValueErrors (lines 80 and 133), the KeyError of
  \<open>color_map\<close> (lines 88 and 89), the RuntimeError of \<open>torch.stack\<close> (line 181), and
  \<open>Library c\<close>, an exception of class \<open>c\<close> raised inside another library call and
  caught by no handler.
\<close>

datatype value_error = Images_not_4D | Channels_not_3

datatype stack_error = Stack_empty | Stack_sizes_differ

datatype error =
    ValueError value_error
  | KeyError pystr
  | RuntimeError stack_error
  | Library py_class

text \<open>\<open>t.cpu().numpy()\<close> (line 129).\<close>

definition cpu_numpy :: "'a tensor \<Rightarrow> error + 'a ndarray" where
  "cpu_numpy t =
     (case cpu_numpy_raises t of
        Some c \<Rightarrow> Inl (Library c)
      | None \<Rightarrow> Inr \<lparr>shape = shape t, elem = elem t\<rparr>)"

text \<open>
  \<open>torch.stack(tensors, dim=0)\<close>: raises a RuntimeError on an empty list and on tensors
  of different sizes; otherwise the result has the list's length as a new first dimension.
  The tensors stacked come from numpy arrays and so does the result: it is given by its
  shape and elements.
\<close>

definition stack :: "'a ndarray list \<Rightarrow> error + 'a ndarray" where
  "stack ts =
     (if ts = [] then Inl (RuntimeError Stack_empty)
      else if \<exists>t \<in> set ts. shape t \<noteq> shape (hd ts) then Inl (RuntimeError Stack_sizes_differ)
      else Inr \<lparr>shape = length ts # shape (hd ts),
                elem = (\<lambda>idx. case idx of [] \<Rightarrow> elem (hd ts) [] | i # r \<Rightarrow> elem (ts ! i) r)\<rparr>)"

subsection \<open>Pillow images\<close>

type_synonym rgb = "nat \<times> nat \<times> nat"

text \<open>
  An image of mode RGB: \<open>im_size\<close> is \<open>(width, height)\<close>, and \<open>im_data [y, x, c]\<close> is
  channel \<open>c\<close> of the pixel in row \<open>y\<close>, column \<open>x\<close>.
\<close>

record pil_image =
  im_size :: "nat \<times> nat"
  im_data :: "nat list \<Rightarrow> 8 word"

text \<open>\<open>np.array(img)\<close> for an image of mode RGB.\<close>

definition np_array :: "pil_image \<Rightarrow> 8 word ndarray" where
  "np_array img = \<lparr>shape = [snd (im_size img), fst (im_size img), 3], elem = im_data img\<rparr>"

subsection \<open>The collaborators\<close>

text \<open>
  What \<open>process\<close> reads of the machine it runs on. \<open>truetype\<close> is
  \<open>ImageFont.truetype\<close>: it returns a font or raises; a missing or unreadable file is
  an OSError, a size that is not positive or a NUL in the name a ValueError.
  \<open>load_default\<close> is the built-in font of \<open>ImageFont.load_default\<close>; the rest are the
  file system and platform queries.
\<close>

record 'font system =
  truetype :: "pystr \<Rightarrow> int \<Rightarrow> py_class + 'font"
  load_default :: "'font"
  path_exists :: "pystr \<Rightarrow> bool"
  path_join :: "pystr \<Rightarrow> pystr \<Rightarrow> pystr"
  platform_system :: pystr
  environ_WINDIR :: "pystr option"
  expanduser :: "pystr \<Rightarrow> pystr"

text \<open>
  The image, text and array primitives; each call of Pillow returns or raises.
  \<open>fromarray_raises\<close> tells whether \<open>Image.fromarray\<close> raises on an array.
  \<open>textbbox\<close> is \<open>ImageDraw.textbbox((0, 0), text, font)\<close> and \<open>textsize\<close> the older
  \<open>ImageDraw.textsize\<close>. \<open>draw_text\<close> is \<open>ImageDraw.text\<close> without stroke arguments and
  \<open>draw_text_stroke\<close> the call with \<open>stroke_width\<close> and \<open>stroke_fill\<close>; both give the
  pixels of the image after drawing: its size cannot change.
  \<open>to_uint8 x\<close> is \<open>(x * 255).astype(np.uint8)\<close> on one element, \<open>from_uint8 k\<close> is
  \<open>k.astype(np.float32) / 255.0\<close>; \<open>'f\<close> stands for the floating-point numbers.
\<close>

record ('f, 'font) pillow =
  fromarray_raises :: "8 word ndarray \<Rightarrow> py_class option"
  textbbox :: "'font \<Rightarrow> pystr \<Rightarrow> py_class + (int \<times> int \<times> int \<times> int)"
  textsize :: "'font \<Rightarrow> pystr \<Rightarrow> py_class + (int \<times> int)"
  draw_text ::
    "pil_image \<Rightarrow> int \<times> int \<Rightarrow> pystr \<Rightarrow> 'font \<Rightarrow> rgb option \<Rightarrow> py_class + (nat list \<Rightarrow> 8 word)"
  draw_text_stroke ::
    "pil_image \<Rightarrow> int \<times> int \<Rightarrow> pystr \<Rightarrow> 'font \<Rightarrow> rgb option \<Rightarrow> int \<Rightarrow> rgb \<Rightarrow>
     py_class + (nat list \<Rightarrow> 8 word)"
  to_uint8 :: "'f \<Rightarrow> 8 word"
  from_uint8 :: "8 word \<Rightarrow> 'f"

text \<open>\<open>Image.fromarray(a, mode="RGB")\<close> for an array of shape (height, width, 3).\<close>

definition fromarray :: "('f, 'font) pillow \<Rightarrow> 8 word ndarray \<Rightarrow> py_class + pil_image" where
  "fromarray L a =
     (case fromarray_raises L a of
        Some c \<Rightarrow> Inl c
      | None \<Rightarrow> Inr \<lparr>im_size = (shape a ! 1, shape a ! 0), im_data = elem a\<rparr>)"

subsection \<open>The arguments of \<open>process\<close>\<close>

record config =
  font_size :: int
  font_color :: pystr
  font :: pystr
  h_position :: pystr
  v_position :: pystr
  h_padding :: int
  v_padding :: int
  num_padding :: nat
  prefix_text :: pystr
  outline_enabled :: bool
  outline_color :: pystr
  stroke_width :: int

text \<open>The \<open>images\<close> argument: a torch tensor, or any other object.\<close>

datatype 'f images = Tensor "'f tensor" | NotTensor

subsection \<open>Colours and fonts\<close>

text \<open>The dictionary \<open>color_map\<close>; the name \<open>none\<close> is a key whose value is \<open>None\<close>.\<close>

definition color_map :: "pystr \<rightharpoonup> rgb option" where
  "color_map = map_of
     [(py ''white'', Some (255, 255, 255)), (py ''black'', Some (0, 0, 0)),
      (py ''red'', Some (255, 0, 0)), (py ''green'', Some (0, 255, 0)),
      (py ''blue'', Some (0, 0, 255)), (py ''yellow'', Some (255, 255, 0)),
      (py ''cyan'', Some (0, 255, 255)), (py ''magenta'', Some (255, 0, 255)),
      (py ''none'', None)]"

text \<open>
  \<open>color_map[outline_color] if outline_enabled and outline_color != "none" else None\<close>:
  the dictionary is read, and can raise KeyError, only when the condition holds.
\<close>

definition outline_color_rgb :: "config \<Rightarrow> error + rgb option" where
  "outline_color_rgb cfg =
     (if outline_enabled cfg \<and> outline_color cfg \<noteq> py ''none'' then
        (case color_map (outline_color cfg) of
           None \<Rightarrow> Inl (KeyError (outline_color cfg))
         | Some c \<Rightarrow> Inr c)
      else Inr None)"

definition font_map :: "pystr \<rightharpoonup> pystr" where
  "font_map = map_of
     [(py ''Arial'', py ''arial.ttf''), (py ''DejaVuSans'', py ''DejaVuSans.ttf''),
      (py ''Times New Roman'', py ''times.ttf''), (py ''Courier New'', py ''cour.ttf'')]"

text \<open>\<open>font_map.get(font, font + ".ttf")\<close>\<close>

definition font_file :: "pystr \<Rightarrow> pystr" where
  "font_file name = (case font_map name of Some f \<Rightarrow> f | None \<Rightarrow> name @ py ''.ttf'')"

text \<open>The directories searched when the loader does not find the file by its name.\<close>

definition font_dirs :: "'font system \<Rightarrow> pystr list" where
  "font_dirs S =
     (if platform_system S = py ''Windows'' then
        [path_join S (case environ_WINDIR S of Some w \<Rightarrow> w | None \<Rightarrow> py ''C:'' @ [92] @ py ''Windows'')
           (py ''Fonts'')]
      else if platform_system S = py ''Darwin'' then
        [py ''/System/Library/Fonts'', py ''/Library/Fonts'', expanduser S (py ''~/Library/Fonts'')]
      else
        [py ''/usr/share/fonts'', py ''/usr/local/share/fonts'', expanduser S (py ''~/.fonts'')])"

text \<open>
  The loop over \<open>font_dirs\<close> (lines 111 to 119): the first directory whose candidate path
  exists and loads wins; a candidate that exists and fails with an OSError is skipped; any
  other exception of the loader leaves the loop and \<open>process\<close>.
\<close>

fun search_font_dirs ::
  "'font system \<Rightarrow> pystr \<Rightarrow> int \<Rightarrow> pystr list \<Rightarrow> py_class + 'font option" where
  "search_font_dirs S file pt [] = Inr None"
| "search_font_dirs S file pt (font_dir # rest) =
     (let font_path_candidate = path_join S font_dir file in
      if path_exists S font_path_candidate then
        (case truetype S font_path_candidate pt of
           Inr f \<Rightarrow> Inr (Some f)
         | Inl c \<Rightarrow> if c = Class_OSError then search_font_dirs S file pt rest else Inl c)
      else search_font_dirs S file pt rest)"

definition font_not_found_message :: "pystr \<Rightarrow> pystr" where
  "font_not_found_message file = py ''Font '' @ file @ py '' not found, using default font''"

text \<open>
  Lines 100 to 122: the font that is used or the exception that escapes, and the lines
  printed. Only an OSError of the loader is caught (lines 103 and 118).
\<close>

definition load_font :: "'font system \<Rightarrow> pystr \<Rightarrow> int \<Rightarrow> (error + 'font) \<times> pystr list" where
  "load_font S file pt =
     (case truetype S file pt of
        Inr f \<Rightarrow> (Inr f, [])
      | Inl c \<Rightarrow>
          if c = Class_OSError then
            (case search_font_dirs S file pt (font_dirs S) of
               Inr (Some f) \<Rightarrow> (Inr f, [])
             | Inr None \<Rightarrow> (Inr (load_default S), [font_not_found_message file])
             | Inl c' \<Rightarrow> (Inl (Library c'), []))
          else (Inl (Library c), []))"

subsection \<open>The caption and where it is drawn\<close>

text \<open>Line 138: \<open>frame_number = f"{i + 1:0{num_padding}d}"\<close>\<close>

definition frame_number :: "nat \<Rightarrow> nat \<Rightarrow> pystr" where
  "frame_number padding i = py_format_0d padding (i + 1)"

text \<open>
  Line 139: \<open>f"{prefix_text} {frame_number}" if prefix_text.strip() else frame_number\<close>.
  A string is true when it is not empty.
\<close>

definition caption :: "pystr \<Rightarrow> nat \<Rightarrow> nat \<Rightarrow> pystr" where
  "caption prefix padding i =
     (if py_strip prefix \<noteq> [] then prefix @ [32] @ frame_number padding i
      else frame_number padding i)"

text \<open>
  Lines 140 to 145: the width and height of the text, from \<open>textbbox((0, 0), ...)\<close>, or
  from \<open>textsize\<close> when \<open>textbbox\<close> raises AttributeError (a Pillow without it); any
  other exception escapes.
\<close>

definition text_extent ::
  "('f, 'font) pillow \<Rightarrow> 'font \<Rightarrow> pystr \<Rightarrow> py_class + (int \<times> int)" where
  "text_extent L fnt text =
     (case textbbox L fnt text of
        Inr (x0, y0, x1, y1) \<Rightarrow> Inr (x1 - x0, y1 - y0)
      | Inl c \<Rightarrow> if c = Class_AttributeError then textsize L fnt text else Inl c)"

text \<open>
  Lines 149 to 163, one axis at a time: \<open>first\<close> is the name of the leading anchor
  (\<open>left\<close> or \<open>top\<close>); any name other than it and \<open>center\<close> takes the last branch.
  \<open>div\<close> on \<open>int\<close> rounds towards minus infinity, as Python's \<open>//\<close> does.
\<close>

definition axis_position :: "pystr \<Rightarrow> pystr \<Rightarrow> int \<Rightarrow> int \<Rightarrow> int \<Rightarrow> int" where
  "axis_position first position padding img_extent txt_extent =
     (if position = first then padding
      else if position = py ''center'' then (img_extent - txt_extent) div 2
      else img_extent - txt_extent - padding)"

definition text_origin :: "config \<Rightarrow> nat \<times> nat \<Rightarrow> int \<times> int \<Rightarrow> int \<times> int" where
  "text_origin cfg img_size txt_size =
     (axis_position (py ''left'') (h_position cfg) (h_padding cfg)
        (int (fst img_size)) (fst txt_size),
      axis_position (py ''top'') (v_position cfg) (v_padding cfg)
        (int (snd img_size)) (snd txt_size))"

subsection \<open>One frame\<close>

definition outline_unsupported_message :: pystr where
  "outline_unsupported_message =
     py ''Text outline not supported in this Pillow version; rendering without outline''"

text \<open>
  Lines 166 to 174: the text is drawn with a stroke when the outline is enabled, has a
  colour and a positive width, and without stroke otherwise. If the call raises TypeError
  a line is printed and the text is drawn without stroke, outside any handler; any other
  exception escapes. The result is the lines printed and the drawn image or the exception.
\<close>

definition draw_caption ::
  "('f, 'font) pillow \<Rightarrow> config \<Rightarrow> 'font \<Rightarrow> rgb option \<Rightarrow> rgb option \<Rightarrow> pil_image \<Rightarrow>
   int \<times> int \<Rightarrow> pystr \<Rightarrow> pystr list \<times> (py_class + pil_image)" where
  "draw_caption L cfg fnt fill outline img xy text =
     (let plain = draw_text L img xy text fnt fill;
          attempt =
            (if outline_enabled cfg \<and> outline \<noteq> None \<and> 0 < stroke_width cfg then
               draw_text_stroke L img xy text fnt fill (stroke_width cfg) (the outline)
             else plain)
      in case attempt of
           Inr pixels \<Rightarrow> ([], Inr (img\<lparr>im_data := pixels\<rparr>))
         | Inl c \<Rightarrow>
             if c = Class_TypeError then
               ([outline_unsupported_message],
                case plain of
                  Inr pixels \<Rightarrow> Inr (img\<lparr>im_data := pixels\<rparr>)
                | Inl c' \<Rightarrow> Inl c')
             else ([], Inl c))"

text \<open>
  Lines 127 to 178, the body of the loop for frame \<open>i\<close>: the frame converted to numpy and
  to 8 bits, the check of its channel count, the image, the caption, its measure and
  position, the drawing, and the frame converted back. The result is the lines printed
  and the frame or the error raised. \<open>process\<close> calls it on a tensor of rank 4, so that
  the frame has rank 3 and \<open>shape[2]\<close> exists.
\<close>

definition annotate_frame ::
  "('f, 'font) pillow \<Rightarrow> config \<Rightarrow> 'font \<Rightarrow> rgb option \<Rightarrow> rgb option \<Rightarrow> 'f tensor \<Rightarrow> nat \<Rightarrow>
   pystr list \<times> (error + 'f ndarray)" where
  "annotate_frame L cfg fnt fill outline imgs i =
     (let img_tensor = select i imgs in
      case cpu_numpy img_tensor of
        Inl e \<Rightarrow> ([], Inl e)
      | Inr arr \<Rightarrow>
          (let img_array = map_elems (to_uint8 L) arr in
           if shape img_array ! 2 = 3 then
             (case fromarray L img_array of
                Inl c \<Rightarrow> ([], Inl (Library c))
              | Inr img \<Rightarrow>
                  (let text = caption (prefix_text cfg) (num_padding cfg) i in
                   case text_extent L fnt text of
                     Inl c \<Rightarrow> ([], Inl (Library c))
                   | Inr txt_size \<Rightarrow>
                       (let xy = text_origin cfg (im_size img) txt_size in
                        case draw_caption L cfg fnt fill outline img xy text of
                          (printed, Inl c) \<Rightarrow> (printed, Inl (Library c))
                        | (printed, Inr img') \<Rightarrow>
                            (printed, Inr (map_elems (from_uint8 L) (np_array img'))))))
           else ([], Inl (ValueError Channels_not_3))))"

subsection \<open>The whole batch\<close>

text \<open>
  The loop of lines 125 to 178 over the frame indices: \<open>output_images\<close> grows by one
  frame per iteration, and the first error ends the loop.
\<close>

fun frames_loop ::
  "(nat \<Rightarrow> pystr list \<times> (error + 'a)) \<Rightarrow> nat list \<Rightarrow> pystr list \<times> 'a list \<Rightarrow>
   pystr list \<times> (error + 'a list)" where
  "frames_loop body [] (printed, output_images) = (printed, Inr output_images)"
| "frames_loop body (i # rest) (printed, output_images) =
     (case body i of
        (p, Inl e) \<Rightarrow> (printed @ p, Inl e)
      | (p, Inr frame) \<Rightarrow> frames_loop body rest (printed @ p, output_images @ [frame]))"

text \<open>
  \<open>process\<close>: the lines printed, and the batch returned or the error raised. The checks
  come in the order of the source: the rank of the tensor, the colour names, then the
  font, the frames and the stacking.
\<close>

definition process ::
  "'font system \<Rightarrow> ('f, 'font) pillow \<Rightarrow> config \<Rightarrow> 'f images \<Rightarrow>
   pystr list \<times> (error + 'f ndarray)" where
  "process S L cfg images =
     (case images of
        NotTensor \<Rightarrow> ([], Inl (ValueError Images_not_4D))
      | Tensor t \<Rightarrow>
          if length (shape t) \<noteq> 4 then ([], Inl (ValueError Images_not_4D))
          else
            (case color_map (font_color cfg) of
               None \<Rightarrow> ([], Inl (KeyError (font_color cfg)))
             | Some font_color_rgb \<Rightarrow>
                 (case outline_color_rgb cfg of
                    Inl e \<Rightarrow> ([], Inl e)
                  | Inr outline \<Rightarrow>
                      (case load_font S (font_file (font cfg)) (font_size cfg) of
                         (Inl e, printed) \<Rightarrow> (printed, Inl e)
                       | (Inr font_path, printed) \<Rightarrow>
                           (case frames_loop
                                   (annotate_frame L cfg font_path font_color_rgb outline t)
                                   [0..<shape t ! 0] (printed, []) of
                              (printed', Inl e) \<Rightarrow> (printed', Inl e)
                            | (printed', Inr output_images) \<Rightarrow>
                                (printed', stack output_images))))))"

subsection \<open>Notions used to state the properties\<close>



text \<open>
  The colour names are keys of \<open>color_map\<close>, as the lists of \<open>INPUT_TYPES\<close> (lines 20
  and 29) have it; the outline colour is looked up only when the outline is enabled.
\<close>

definition known_colors :: "config \<Rightarrow> bool" where
  "known_colors cfg \<longleftrightarrow>
     font_color cfg \<in> dom color_map \<and>
     (outline_enabled cfg \<longrightarrow> outline_color cfg \<in> dom color_map)"






text \<open>
  Pillow's calls return, but for the two exceptions that \<open>process\<close> handles: the
  AttributeError of a missing \<open>textbbox\<close>, when \<open>textsize\<close> returns, and the TypeError of
  the stroke arguments.
\<close>

definition pillow_returns :: "('f, 'font) pillow \<Rightarrow> bool" where
  "pillow_returns L \<longleftrightarrow>
     (\<forall>a. fromarray_raises L a = None) \<and>
     (\<forall>fnt text. \<not> isl (text_extent L fnt text)) \<and>
     (\<forall>img xy text fnt fill. \<not> isl (draw_text L img xy text fnt fill)) \<and>
     (\<forall>img xy text fnt fill width stroke.
        isl (draw_text_stroke L img xy text fnt fill width stroke) \<longrightarrow>
        draw_text_stroke L img xy text fnt fill width stroke = Inl Class_TypeError)"

text \<open>
  The font loader fails with nothing but an OSError on the paths that \<open>load_font\<close> can
  try: the file name, and the candidates that exist.
\<close>

definition tried_paths :: "'font system \<Rightarrow> pystr \<Rightarrow> pystr list" where
  "tried_paths S file =
     file # filter (path_exists S) (map (\<lambda>font_dir. path_join S font_dir file) (font_dirs S))"

definition loader_fails_with_OSError_only :: "'font system \<Rightarrow> pystr \<Rightarrow> int \<Rightarrow> bool" where
  "loader_fails_with_OSError_only S file pt \<longleftrightarrow>
     list_all (\<lambda>path. case truetype S path pt of Inl c \<Rightarrow> c = Class_OSError | Inr f \<Rightarrow> True)
       (tried_paths S file)"

text \<open>
  The fallback chain in the words of the specification: the font loaded by the file name;
  else the font loaded from the first directory of the search whose candidate path exists
  and loads; else the built-in font, with a warning.
\<close>

definition loads_from :: "'font system \<Rightarrow> pystr \<Rightarrow> int \<Rightarrow> pystr \<Rightarrow> bool" where
  "loads_from S file pt font_dir \<longleftrightarrow>
     path_exists S (path_join S font_dir file) \<and> \<not> isl (truetype S (path_join S font_dir file) pt)"

definition falls_back_to_default :: "'font system \<Rightarrow> pystr \<Rightarrow> int \<Rightarrow> bool" where
  "falls_back_to_default S file pt \<longleftrightarrow>
     isl (truetype S file pt) \<and> List.find (loads_from S file pt) (font_dirs S) = None"

definition fallback_font :: "'font system \<Rightarrow> pystr \<Rightarrow> int \<Rightarrow> 'font" where
  "fallback_font S file pt =
     (case truetype S file pt of
        Inr f \<Rightarrow> f
      | Inl c \<Rightarrow>
          (case List.find (loads_from S file pt) (font_dirs S) of
             Some font_dir \<Rightarrow> projr (truetype S (path_join S font_dir file) pt)
           | None \<Rightarrow> load_default S))"

subsection \<open>The arithmetic of float32\<close>

text \<open>
  The integer nearest to a real number, a tie going to the even one, and the integer
  towards zero: the rounding of IEEE 754 arithmetic and the cast of C.
\<close>

definition half_even :: "real \<Rightarrow> int" where
  "half_even x =
     (let f = \<lfloor>x\<rfloor>; d = x - of_int f
      in if d < 1 / 2 then f else if 1 / 2 < d then f + 1 else if even f then f else f + 1)"

definition towards_zero :: "real \<Rightarrow> int" where
  "towards_zero x = (if 0 \<le> x then \<lfloor>x\<rfloor> else \<lceil>x\<rceil>)"

text \<open>
  The float32 numbers near \<open>x\<close> with \<open>\<bar>x\<bar> < 2 ^ 24\<close> are the multiples of \<open>2 ^ - s\<close>,
  where \<open>s\<close> is the least number with \<open>2 ^ 23 \<le> \<bar>x\<bar> * 2 ^ s\<close>, and 149 where there is
  none below (the subnormal numbers). \<open>binade_shift 149 0 \<bar>x\<bar>\<close> finds it.
\<close>

fun binade_shift :: "nat \<Rightarrow> nat \<Rightarrow> real \<Rightarrow> nat" where
  "binade_shift 0 s x = s"
| "binade_shift (Suc fuel) s x =
     (if 2 ^ 23 \<le> x * 2 ^ s then s else binade_shift fuel (Suc s) x)"

text \<open>
  The float32 number nearest to \<open>x\<close>, ties to even, for \<open>\<bar>x\<bar> < 2 ^ 24\<close>: the result of a
  float32 operation whose exact result is \<open>x\<close>.
\<close>

definition float32_nearest :: "real \<Rightarrow> real" where
  "float32_nearest x =
     (let s = binade_shift 149 0 \<bar>x\<bar> in of_int (half_even (x * 2 ^ s)) / 2 ^ s)"

text \<open>
  \<open>k.astype(np.float32) / 255.0\<close> on a byte: the byte is a float32 exactly, and the
  quotient is rounded to float32.
\<close>

definition float32_byte_over_255 :: "8 word \<Rightarrow> real" where
  "float32_byte_over_255 k = float32_nearest (real (unat k) / 255)"

text \<open>
  \<open>(x * 255).astype(np.uint8)\<close> on a float32 \<open>x\<close>: the product is rounded to float32 and
  cast towards zero. Off the range of the integers that the platform casts, the result of
  the cast is not defined by numpy; here it wraps.
\<close>

definition float32_times_255_to_byte :: "real \<Rightarrow> 8 word" where
  "float32_times_255_to_byte x = word_of_int (towards_zero (float32_nearest (x * 255)))"

subsection \<open>Worked examples\<close>

text \<open>The default values of \<open>INPUT_TYPES\<close> (lines 19 to 30).\<close>

definition example_config :: config where
  "example_config =
     \<lparr>font_size = 32, font_color = py ''white'', font = py ''Arial'',
      h_position = py ''left'', v_position = py ''top'', h_padding = 20, v_padding = 20,
      num_padding = 3, prefix_text = py ''Frame'', outline_enabled = False,
      outline_color = py ''black'', stroke_width = 1\<rparr>"

text \<open>
  A Linux machine on which no font file can be loaded, and one on which the file
  \<open>arial.ttf\<close> is found in the second directory of the search. Fonts are numbered; the
  built-in font is number 0. The loader raises a ValueError for a size that is not
  positive and for a NUL in the path, as Pillow does, and an OSError for a file it does
  not find.
\<close>

definition example_system :: "nat system" where
  "example_system =
     \<lparr>truetype = (\<lambda>path pt. if pt \<le> 0 \<or> 0 \<in> set path then Inl Class_ValueError
                              else Inl Class_OSError),
      load_default = 0, path_exists = (\<lambda>path. False),
      path_join = (\<lambda>d f. d @ [47] @ f), platform_system = py ''Linux'',
      environ_WINDIR = None, expanduser = (\<lambda>path. py ''/home/user'' @ tl path)\<rparr>"


text \<open>
  A stand-in for Pillow and numpy: every call returns, every character is 10 pixels wide
  and 12 high, drawing leaves the pixels as they are, and the elements are float32
  numbers, given as the reals they are.
\<close>

definition example_pillow :: "(real, nat) pillow" where
  "example_pillow =
     \<lparr>fromarray_raises = (\<lambda>a. None),
      textbbox = (\<lambda>fnt text. Inr (0, 0, 10 * int (length text), 12)),
      textsize = (\<lambda>fnt text. Inr (10 * int (length text), 12)),
      draw_text = (\<lambda>img xy text fnt fill. Inr (im_data img)),
      draw_text_stroke = (\<lambda>img xy text fnt fill width stroke. Inr (im_data img)),
      to_uint8 = float32_times_255_to_byte,
      from_uint8 = float32_byte_over_255\<rparr>"

text \<open>
  A float32 tensor of the given shape that converts to numpy, every element one half, and
  the same tensor requiring grad.
\<close>

definition example_batch :: "nat list \<Rightarrow> real tensor" where
  "example_batch sh = \<lparr>shape = sh, elem = (\<lambda>idx. 1 / 2), cpu_numpy_raises = None\<rparr>"

definition example_batch_requiring_grad :: "nat list \<Rightarrow> real tensor" where
  "example_batch_requiring_grad sh =
     (example_batch sh)\<lparr>cpu_numpy_raises := Some Class_RuntimeError\<rparr>"

section \<open>Properties\<close>

subsection \<open>Strings\<close>











subsection \<open>The caption\<close>





subsection \<open>The position of the caption\<close>



subsection \<open>The loop over the frames\<close>

lemma frames_loop_printed:
  "snd (frames_loop body is (p, out)) = snd (frames_loop body is ([], out))"
proof (induction "is" arbitrary: p out)
  case Nil
  show ?case by simp
next
  case (Cons i rest)
  show ?case
  proof (cases "body i")
    case (Pair q r)
    show ?thesis
    proof (cases r)
      case (Inl e)
      with Pair show ?thesis by simp
    next
      case (Inr f)
      with Pair Cons [of "p @ q" "out @ [f]"] Cons [of "q" "out @ [f]"] show ?thesis by simp
    qed
  qed
qed


lemma frames_loop_all_ok:
  "(\<And>i. i \<in> set is \<Longrightarrow> snd (body i) = Inr (g i)) \<Longrightarrow>
   snd (frames_loop body is (p, out)) = Inr (out @ map g is)"
proof (induction "is" arbitrary: p out)
  case Nil
  show ?case by simp
next
  case (Cons i rest)
  obtain q where q: "body i = (q, Inr (g i))"
    using Cons.prems [of i] by (cases "body i") simp
  have "snd (frames_loop body rest (p @ q, out @ [g i])) = Inr ((out @ [g i]) @ map g rest)"
    by (rule Cons.IH) (simp add: Cons.prems)
  with q show ?case by simp
qed


text \<open>A loop that returns has appended, in order, what the body returned for each index.\<close>

lemma frames_loop_returns:
  "snd (frames_loop body is (p, out)) = Inr fs \<Longrightarrow>
   length fs = length out + length is \<and>
   (\<forall>j<length is. snd (body (is ! j)) = Inr (fs ! (length out + j))) \<and>
   take (length out) fs = out"
proof (induction "is" arbitrary: p out)
  case Nil
  then show ?case by simp
next
  case (Cons i rest)
  obtain q r where b: "body i = (q, r)" by (cases "body i")
  show ?case
  proof (cases r)
    case (Inl e)
    with b Cons.prems show ?thesis by simp
  next
    case (Inr f)
    with b Cons.prems
    have "snd (frames_loop body rest (p @ q, out @ [f])) = Inr fs" by simp
    from Cons.IH [OF this]
    have len: "length fs = length (out @ [f]) + length rest"
      and each: "\<forall>j<length rest. snd (body (rest ! j)) = Inr (fs ! (length (out @ [f]) + j))"
      and tk: "take (length (out @ [f])) fs = out @ [f]"
      by blast+
    have "take (length out) fs = take (length out) (take (length (out @ [f])) fs)"
      by simp
    also have "\<dots> = out" unfolding tk by simp
    finally have tk': "take (length out) fs = out" .
    have "fs ! length out = take (length (out @ [f])) fs ! length out"
      by simp
    also have "\<dots> = f" unfolding tk by simp
    finally have f: "fs ! length out = f" .
    have "snd (body ((i # rest) ! j)) = Inr (fs ! (length out + j))" if "j < length (i # rest)" for j
    proof (cases j)
      case 0
      with b Inr f show ?thesis by simp
    next
      case (Suc k)
      with that each show ?thesis by simp
    qed
    with len tk' show ?thesis by simp
  qed
qed

subsection \<open>One frame\<close>

lemma draw_caption_returns:
  assumes "pillow_returns L"
  shows "\<exists>pixels. snd (draw_caption L cfg fnt fill outline img xy text) = Inr (img\<lparr>im_data := pixels\<rparr>)"
proof -
  from assms obtain plain where plain: "draw_text L img xy text fnt fill = Inr plain"
    unfolding pillow_returns_def by (metis isl_def sum.collapse(2))
  show ?thesis
  proof (cases "draw_text_stroke L img xy text fnt fill (stroke_width cfg) (the outline)")
    case (Inl c)
    with assms have "c = Class_TypeError"
      unfolding pillow_returns_def by (metis isl_def sum.inject(1))
    with Inl plain show ?thesis by (auto simp: draw_caption_def Let_def)
  next
    case (Inr pixels)
    with plain show ?thesis by (auto simp: draw_caption_def Let_def)
  qed
qed

lemma text_extent_returns:
  assumes "pillow_returns L"
  shows "\<exists>size. text_extent L fnt text = Inr size"
  using assms unfolding pillow_returns_def by (metis sum.collapse(2))



text \<open>
  A frame with 3 channels, when the libraries return: the caption is measured, placed by
  \<open>text_origin\<close> in the image of the frame's width and height, and drawn.
\<close>

lemma annotate_frame_returns:
  assumes sh: "shape t = [n, h, w, 3]" and conv: "cpu_numpy_raises t = None"
    and ret: "pillow_returns L"
  shows "\<exists>size pixels.
           text_extent L fnt (caption (prefix_text cfg) (num_padding cfg) i) = Inr size \<and>
           snd (draw_caption L cfg fnt fill outline
                  \<lparr>im_size = (w, h), im_data = (\<lambda>idx. to_uint8 L (elem t (i # idx)))\<rparr>
                  (text_origin cfg (w, h) size)
                  (caption (prefix_text cfg) (num_padding cfg) i))
             = Inr \<lparr>im_size = (w, h), im_data = pixels\<rparr> \<and>
           snd (annotate_frame L cfg fnt fill outline t i) =
             Inr \<lparr>shape = [h, w, 3], elem = (\<lambda>idx. from_uint8 L (pixels idx))\<rparr>"
proof -
  let ?text = "caption (prefix_text cfg) (num_padding cfg) i"
  let ?img = "\<lparr>im_size = (w, h), im_data = (\<lambda>idx. to_uint8 L (elem t (i # idx)))\<rparr>"
  from text_extent_returns [OF ret] obtain size where size: "text_extent L fnt ?text = Inr size"
    by blast
  from draw_caption_returns [OF ret] obtain pixels where
    px: "snd (draw_caption L cfg fnt fill outline ?img (text_origin cfg (w, h) size) ?text)
      = Inr (?img\<lparr>im_data := pixels\<rparr>)"
    by blast
  have fa: "fromarray L \<lparr>shape = [h, w, 3], elem = (\<lambda>idx. to_uint8 L (elem t (i # idx)))\<rparr>
      = Inr ?img"
    using ret by (simp add: fromarray_def pillow_returns_def)
  obtain printed where dc:
    "draw_caption L cfg fnt fill outline ?img (text_origin cfg (w, h) size) ?text =
       (printed, Inr \<lparr>im_size = (w, h), im_data = pixels\<rparr>)"
    using px by (cases "draw_caption L cfg fnt fill outline ?img (text_origin cfg (w, h) size) ?text")
      simp
  have "snd (annotate_frame L cfg fnt fill outline t i) =
      Inr \<lparr>shape = [h, w, 3], elem = (\<lambda>idx. from_uint8 L (pixels idx))\<rparr>"
    by (simp add: annotate_frame_def cpu_numpy_def select_def sh conv Let_def map_elems_def fa
        size dc np_array_def)
  with size px show ?thesis by auto
qed

lemma annotate_frame_returned_elems:
  assumes "snd (annotate_frame L cfg fnt fill outline t i) = Inr f"
  shows "\<exists>k. elem f idx = from_uint8 L k"
  using assms
  by (auto simp: annotate_frame_def Let_def map_elems_def
      split: sum.splits if_splits prod.splits)

subsection \<open>The outcome of \<open>process\<close>\<close>

lemma color_map_none: "color_map (py ''none'') = Some None"
  by (simp add: color_map_def)

lemma known_colors_lookup:
  assumes "known_colors cfg"
  obtains fill outline where "color_map (font_color cfg) = Some fill"
    and "outline_color_rgb cfg = Inr outline"
proof -
  from assms obtain fill where f: "color_map (font_color cfg) = Some fill"
    by (auto simp: known_colors_def)
  have "\<exists>outline. outline_color_rgb cfg = Inr outline"
    using assms by (auto simp: known_colors_def outline_color_rgb_def)
  with f that show thesis by blast
qed


lemma process_unknown_color:
  assumes "\<not> known_colors cfg" and "length (shape t) = 4"
  shows "process S L cfg (Tensor t) =
           ([], Inl (KeyError (if color_map (font_color cfg) = None then font_color cfg
                               else outline_color cfg)))"
proof -
  from assms(1) have "color_map (font_color cfg) = None \<or>
      (color_map (font_color cfg) \<noteq> None \<and> outline_color_rgb cfg = Inl (KeyError (outline_color cfg)))"
    using color_map_none by (auto simp: known_colors_def outline_color_rgb_def)
  then show ?thesis
    by (auto simp: process_def assms(2) split: option.splits)
qed

text \<open>\<open>process\<close> on a tensor of rank 4 with known colours: the font, the loop, the stacking.\<close>

lemma process_unfold:
  assumes fill: "color_map (font_color cfg) = Some fill"
    and outl: "outline_color_rgb cfg = Inr outline"
    and len: "length (shape t) = 4"
  shows "snd (process S L cfg (Tensor t)) =
           (case fst (load_font S (font_file (font cfg)) (font_size cfg)) of
              Inl e \<Rightarrow> Inl e
            | Inr fnt \<Rightarrow>
                (case snd (frames_loop (annotate_frame L cfg fnt fill outline t)
                             [0..<shape t ! 0] ([], [])) of
                   Inl e \<Rightarrow> Inl e
                 | Inr output_images \<Rightarrow> stack output_images))"
proof -
  obtain r printed where lf: "load_font S (font_file (font cfg)) (font_size cfg) = (r, printed)"
    by (cases "load_font S (font_file (font cfg)) (font_size cfg)")
  show ?thesis
  proof (cases r)
    case (Inl e)
    with lf show ?thesis by (simp add: process_def fill outl len)
  next
    case (Inr fnt)
    let ?body = "annotate_frame L cfg fnt fill outline t"
    have "snd (process S L cfg (Tensor t)) =
        (case snd (frames_loop ?body [0..<shape t ! 0] (printed, [])) of
           Inl e \<Rightarrow> Inl e | Inr output_images \<Rightarrow> stack output_images)"
      by (simp add: process_def fill outl len lf Inr split: prod.splits sum.splits)
    also have "snd (frames_loop ?body [0..<shape t ! 0] (printed, [])) =
        snd (frames_loop ?body [0..<shape t ! 0] ([], []))"
      by (rule frames_loop_printed)
    finally show ?thesis by (simp add: lf Inr)
  qed
qed



lemma process_empty:
  assumes "known_colors cfg" and sh: "shape t = [0, h, w, c]"
  shows "snd (process S L cfg (Tensor t)) =
           (case fst (load_font S (font_file (font cfg)) (font_size cfg)) of
              Inl e \<Rightarrow> Inl e
            | Inr fnt \<Rightarrow> Inl (RuntimeError Stack_empty))"
proof -
  from assms(1) obtain fill outline where fill: "color_map (font_color cfg) = Some fill"
    and outl: "outline_color_rgb cfg = Inr outline"
    by (rule known_colors_lookup)
  have len: "length (shape t) = 4" by (simp add: sh)
  show ?thesis
    unfolding process_unfold [OF fill outl len]
    by (simp add: sh stack_def split: sum.splits)
qed


lemma stack_uniform:
  assumes "fs \<noteq> []" and "\<And>f. f \<in> set fs \<Longrightarrow> shape f = sh"
  shows "\<exists>out. stack fs = Inr out \<and> shape out = length fs # sh \<and>
           (\<forall>i<length fs. select i out = fs ! i)"
proof -
  have "hd fs \<in> set fs" using assms(1) by simp
  then have hd: "shape (hd fs) = sh" by (rule assms(2))
  have same: "\<not> (\<exists>t \<in> set fs. shape t \<noteq> shape (hd fs))"
    using assms(2) hd by simp
  have "\<forall>i<length fs. shape (fs ! i) = sh"
    using assms(2) by simp
  then show ?thesis
    using assms(1) same hd by (simp add: stack_def select_def)
qed

text \<open>
  A batch of \<open>n > 0\<close> frames with 3 channels, when the libraries return: frame \<open>i\<close> of the
  output is what the loop body returns for frame \<open>i\<close> of the input.
\<close>

lemma process_valid_batch:
  assumes fill: "color_map (font_color cfg) = Some fill"
    and outl: "outline_color_rgb cfg = Inr outline"
    and sh: "shape t = [n, h, w, 3]" and n: "0 < n"
    and conv: "cpu_numpy_raises t = None" and ret: "pillow_returns L"
    and lf: "fst (load_font S (font_file (font cfg)) (font_size cfg)) = Inr fnt"
  shows "\<exists>out. snd (process S L cfg (Tensor t)) = Inr out \<and> shape out = [n, h, w, 3] \<and>
           (\<forall>i<n. snd (annotate_frame L cfg fnt fill outline t i) = Inr (select i out))"
proof -
  let ?body = "annotate_frame L cfg fnt fill outline t"
  have len: "length (shape t) = 4" by (simp add: sh)
  have "\<exists>f. snd (?body i) = Inr f \<and> shape f = [h, w, 3]" for i
    using annotate_frame_returns [OF sh conv ret, of fnt cfg i fill outline] by auto
  then obtain g where g: "\<And>i. snd (?body i) = Inr (g i)" "\<And>i. shape (g i) = [h, w, 3]"
    by metis
  have loop: "snd (frames_loop ?body [0..<n] ([], [])) = Inr ([] @ map g [0..<n])"
    by (rule frames_loop_all_ok) (rule g(1))
  have "\<exists>out. stack (map g [0..<n]) = Inr out \<and> shape out = length (map g [0..<n]) # [h, w, 3] \<and>
      (\<forall>i<length (map g [0..<n]). select i out = map g [0..<n] ! i)"
    by (rule stack_uniform) (use n g(2) in auto)
  then obtain out where out: "stack (map g [0..<n]) = Inr out" "shape out = [n, h, w, 3]"
    "\<forall>i<n. select i out = g i"
    by auto
  have "snd (process S L cfg (Tensor t)) = Inr out"
    unfolding process_unfold [OF fill outl len] by (simp add: lf sh loop out(1))
  with out g(1) show ?thesis by auto
qed

text \<open>A batch that is returned is the stack of what the loop body returned for its frames.\<close>

lemma process_returned:
  assumes "snd (process S L cfg images) = Inr out"
  shows "\<exists>t fnt fill outline fs.
           images = Tensor t \<and> stack fs = Inr out \<and>
           (\<forall>j<length fs. snd (annotate_frame L cfg fnt fill outline t j) = Inr (fs ! j))"
proof (cases images)
  case NotTensor
  with assms show ?thesis by (simp add: process_def)
next
  case (Tensor t)
  have len: "length (shape t) = 4"
    using assms unfolding Tensor by (simp add: process_def split: if_splits)
  have kc: "known_colors cfg"
    using process_unknown_color [OF _ len, of cfg S L] assms unfolding Tensor by force
  then obtain fill outline where fill: "color_map (font_color cfg) = Some fill"
    and outl: "outline_color_rgb cfg = Inr outline"
    by (rule known_colors_lookup)
  from assms [unfolded Tensor process_unfold [OF fill outl len]]
  obtain fnt fs where
    loop: "snd (frames_loop (annotate_frame L cfg fnt fill outline t) [0..<shape t ! 0] ([], []))
      = Inr fs"
    and st: "stack fs = Inr out"
    by (auto split: sum.splits)
  from frames_loop_returns [OF loop]
  have l: "length fs = shape t ! 0"
    and each: "\<forall>j. j < shape t ! 0 \<longrightarrow>
        snd (annotate_frame L cfg fnt fill outline t ([0..<shape t ! 0] ! j)) = Inr (fs ! j)"
    by simp_all
  have "\<forall>j<length fs. snd (annotate_frame L cfg fnt fill outline t j) = Inr (fs ! j)"
    using each l by simp
  with Tensor st show ?thesis by blast
qed

lemma stack_returned:
  assumes "stack fs = Inr out"
  shows "shape out = length fs # shape (hd fs) \<and> (\<forall>i r. elem out (i # r) = elem (fs ! i) r)"
proof (cases "fs = []")
  case True
  with assms show ?thesis by (simp add: stack_def)
next
  case False
  show ?thesis
  proof (cases "\<exists>t \<in> set fs. shape t \<noteq> shape (hd fs)")
    case True
    with False have "stack fs = Inl (RuntimeError Stack_sizes_differ)"
      by (simp only: stack_def if_True if_False)
    with assms show ?thesis by simp
  next
    case same: False
    with False have "stack fs = Inr \<lparr>shape = length fs # shape (hd fs),
        elem = (\<lambda>idx. case idx of [] \<Rightarrow> elem (hd fs) [] | i # r \<Rightarrow> elem (fs ! i) r)\<rparr>"
      by (simp only: stack_def if_True if_False)
    with assms have "out = \<lparr>shape = length fs # shape (hd fs),
        elem = (\<lambda>idx. case idx of [] \<Rightarrow> elem (hd fs) [] | i # r \<Rightarrow> elem (fs ! i) r)\<rparr>"
      by simp
    then show ?thesis by simp
  qed
qed

lemma in_range_Cons:
  assumes "in_range idx (n # sh)"
  obtains i r where "idx = i # r" and "i < n"
  using assms unfolding in_range_def by (cases idx) simp_all

text \<open>
  Every element of a returned batch is \<open>from_uint8\<close> of some 8-bit value, whatever the
  libraries are.
\<close>

lemma output_elements_quantised:
  assumes out: "snd (process S L cfg images) = Inr out" and idx: "in_range idx (shape out)"
  shows "\<exists>k. elem out idx = from_uint8 L k"
proof -
  from process_returned [OF out] obtain t fnt fill outline fs where
    st: "stack fs = Inr out"
    and each: "\<forall>j<length fs. snd (annotate_frame L cfg fnt fill outline t j) = Inr (fs ! j)"
    by blast
  from stack_returned [OF st] have shape: "shape out = length fs # shape (hd fs)"
    and el: "\<And>i r. elem out (i # r) = elem (fs ! i) r"
    by simp_all
  from idx obtain i r where i: "idx = i # r" "i < length fs"
    unfolding shape by (rule in_range_Cons)
  from each i(2) have "snd (annotate_frame L cfg fnt fill outline t i) = Inr (fs ! i)"
    by simp
  from annotate_frame_returned_elems [OF this, of r] show ?thesis
    by (simp add: i(1) el)
qed

subsection \<open>Font resolution\<close>

lemma search_font_dirs_find:
  assumes "list_all (\<lambda>path. case truetype S path pt of Inl c \<Rightarrow> c = Class_OSError | Inr f \<Rightarrow> True)
             (filter (path_exists S) (map (\<lambda>font_dir. path_join S font_dir file) dirs))"
  shows "search_font_dirs S file pt dirs =
           Inr (case List.find (loads_from S file pt) dirs of
                  None \<Rightarrow> None
                | Some font_dir \<Rightarrow> Some (projr (truetype S (path_join S font_dir file) pt)))"
  using assms
proof (induction dirs)
  case Nil
  show ?case by simp
next
  case (Cons d rest)
  show ?case
  proof (cases "path_exists S (path_join S d file)")
    case False
    with Cons show ?thesis by (simp add: loads_from_def)
  next
    case True
    show ?thesis
    proof (cases "truetype S (path_join S d file) pt")
      case (Inr f)
      with True show ?thesis by (simp add: loads_from_def)
    next
      case (Inl c)
      with True Cons.prems have "c = Class_OSError" by simp
      with True Inl Cons show ?thesis by (simp add: loads_from_def)
    qed
  qed
qed

text \<open>
  When the loader fails with nothing but OSError, the resolution returns the font of the
  fallback chain, and prints the warning exactly when that is the built-in font.
\<close>

lemma load_font_fallback:
  assumes "loader_fails_with_OSError_only S file pt"
  shows "load_font S file pt =
           (Inr (fallback_font S file pt),
            if falls_back_to_default S file pt then [font_not_found_message file] else [])"
proof -
  from assms have first: "case truetype S file pt of Inl c \<Rightarrow> c = Class_OSError | Inr f \<Rightarrow> True"
    and rest: "list_all (\<lambda>path. case truetype S path pt of Inl c \<Rightarrow> c = Class_OSError | Inr f \<Rightarrow> True)
        (filter (path_exists S) (map (\<lambda>font_dir. path_join S font_dir file) (font_dirs S)))"
    by (simp_all add: loader_fails_with_OSError_only_def tried_paths_def)
  note search = search_font_dirs_find [OF rest]
  show ?thesis
  proof (cases "truetype S file pt")
    case (Inr f)
    then show ?thesis
      by (simp add: load_font_def fallback_font_def falls_back_to_default_def)
  next
    case (Inl c)
    with first have c: "c = Class_OSError" by simp
    show ?thesis
      by (simp add: load_font_def fallback_font_def falls_back_to_default_def Inl c search
          split: option.splits)
  qed
qed

subsection \<open>The worked examples\<close>

lemma known_colors_example: "known_colors example_config"
  by (simp add: known_colors_def example_config_def color_map_def)

lemma example_config_colors:
  "color_map (font_color example_config) = Some (Some (255, 255, 255))"
  "outline_color_rgb example_config = Inr None"
  by (simp_all add: example_config_def color_map_def outline_color_rgb_def)

lemma pillow_returns_example: "pillow_returns example_pillow"
  by (simp add: pillow_returns_def example_pillow_def text_extent_def)

lemma font_file_example: "font_file (font example_config) = py ''arial.ttf''"
  by (simp add: example_config_def font_file_def font_map_def)

lemma loader_example:
  "loader_fails_with_OSError_only example_system (font_file (font example_config))
     (font_size example_config)"
  unfolding font_file_example
  by (simp add: loader_fails_with_OSError_only_def tried_paths_def example_system_def
      example_config_def)


lemma example_batch_simps:
  "shape (example_batch sh) = sh" "cpu_numpy_raises (example_batch sh) = None"
  "shape (example_batch_requiring_grad sh) = sh"
  "cpu_numpy_raises (example_batch_requiring_grad sh) = Some Class_RuntimeError"
  by (simp_all add: example_batch_def example_batch_requiring_grad_def)

subsection \<open>The empty batch\<close>

text \<open>
  C8: for a tensor of rank 4 whose batch dimension is 0 (with 3 channels or any other
  number) \<open>process\<close> raises and returns no batch, empty or other. When the font resolution
  returns a font, the loop appends nothing and \<open>torch.stack\<close> raises its RuntimeError on
  the empty list; when the font loader raises an exception that is not caught, that
  exception is raised before.
\<close>

theorem empty_batch_raises:
  assumes "known_colors cfg" and "shape t = [0, h, w, c]"
  shows "isl (snd (process S L cfg (Tensor t))) \<and>
         snd (process S L cfg (Tensor t)) =
           (case fst (load_font S (font_file (font cfg)) (font_size cfg)) of
              Inl e \<Rightarrow> Inl e
            | Inr fnt \<Rightarrow> Inl (RuntimeError Stack_empty))"
  using process_empty [OF assms, of S L] by (simp split: sum.splits)

theorem empty_batch_raises_witness:
  "snd (process example_system example_pillow example_config (Tensor (example_batch [0, 480, 640, 3])))
     = Inl (RuntimeError Stack_empty)"
  using empty_batch_raises [OF known_colors_example, of "example_batch [0, 480, 640, 3]" 480 640 3
      example_system example_pillow]
  by (simp add: example_batch_simps load_font_fallback [OF loader_example])

subsection \<open>Length and shape of the output\<close>




subsection \<open>Invalid input\<close>





subsection \<open>The outline parameters\<close>

lemma annotate_frame_outline_off:
  assumes "\<not> outline_enabled cfg"
  shows "annotate_frame L (cfg\<lparr>outline_color := oc, stroke_width := sw\<rparr>) fnt fill outline t i =
         annotate_frame L cfg fnt fill outline t i"
proof -
  let ?cfg = "cfg\<lparr>outline_color := oc, stroke_width := sw\<rparr>"
  have d: "draw_caption L ?cfg fnt fill outline = draw_caption L cfg fnt fill outline"
    using assms by (intro ext) (simp add: draw_caption_def Let_def)
  have o: "text_origin ?cfg = text_origin cfg"
    by (intro ext) (simp add: text_origin_def)
  have p: "prefix_text ?cfg = prefix_text cfg" "num_padding ?cfg = num_padding cfg"
    by simp_all
  show ?thesis
    unfolding annotate_frame_def d o p ..
qed

text \<open>
  C10: with \<open>outline_enabled\<close> false, \<open>outline_color\<close> and \<open>stroke_width\<close> have no
  effect: two calls that differ in these two arguments only give the same result, the
  printed lines included.
\<close>

theorem outline_off_independent:
  assumes "\<not> outline_enabled cfg"
  shows "process S L (cfg\<lparr>outline_color := oc, stroke_width := sw\<rparr>) images = process S L cfg images"
proof -
  have o: "outline_color_rgb (cfg\<lparr>outline_color := oc, stroke_width := sw\<rparr>) = Inr None"
    "outline_color_rgb cfg = Inr None"
    using assms by (simp_all add: outline_color_rgb_def)
  have b: "annotate_frame L (cfg\<lparr>outline_color := oc, stroke_width := sw\<rparr>) fnt fill None t =
      annotate_frame L cfg fnt fill None t" for fnt fill and t :: "'a tensor"
    by (rule ext) (rule annotate_frame_outline_off [OF assms])
  have r: "font_color (cfg\<lparr>outline_color := oc, stroke_width := sw\<rparr>) = font_color cfg"
    "font (cfg\<lparr>outline_color := oc, stroke_width := sw\<rparr>) = font cfg"
    "font_size (cfg\<lparr>outline_color := oc, stroke_width := sw\<rparr>) = font_size cfg"
    by simp_all
  show ?thesis
    unfolding process_def o r sum.case b ..
qed

theorem outline_off_independent_witness:
  "process example_system example_pillow
     (example_config\<lparr>outline_color := py ''red'', stroke_width := 5\<rparr>)
     (Tensor (example_batch [2, 4, 4, 3])) =
   process example_system example_pillow example_config (Tensor (example_batch [2, 4, 4, 3]))"
proof -
  have "\<not> outline_enabled example_config" by (simp add: example_config_def)
  from outline_off_independent [OF this] show ?thesis .
qed

subsection \<open>Determinism\<close>



subsection \<open>The fallback of the font\<close>





subsection \<open>Rounding to float32\<close>

lemma half_even_bounds: "\<lfloor>x\<rfloor> \<le> half_even x \<and> half_even x \<le> \<lceil>x\<rceil>"
proof (cases "x - of_int \<lfloor>x\<rfloor> < 1 / 2")
  case True
  then have "half_even x = \<lfloor>x\<rfloor>" by (simp add: half_even_def Let_def)
  then show ?thesis by (simp add: floor_le_ceiling)
next
  case False
  then have "of_int \<lfloor>x\<rfloor> \<noteq> x" by auto
  then have c: "\<lceil>x\<rceil> = \<lfloor>x\<rfloor> + 1"
    by (metis ceiling_altdef)
  have "half_even x = \<lfloor>x\<rfloor> \<or> half_even x = \<lfloor>x\<rfloor> + 1"
    by (simp add: half_even_def Let_def)
  with c show ?thesis by auto
qed

lemma float32_nearest_unit:
  assumes "0 \<le> x" and "x \<le> 1"
  shows "0 \<le> float32_nearest x \<and> float32_nearest x \<le> 1"
proof -
  define s where "s = binade_shift 149 0 \<bar>x\<bar>"
  define y where "y = x * 2 ^ s"
  have y: "0 \<le> y" "y \<le> 2 ^ s"
    using assms by (simp_all add: y_def mult_le_cancel_right1)
  from y(1) have "0 \<le> \<lfloor>y\<rfloor>" by simp
  with half_even_bounds [of y] have lo: "0 \<le> half_even y" by linarith
  have "\<lceil>y\<rceil> \<le> 2 ^ s"
    using y(2) by (simp add: ceiling_le_iff)
  with half_even_bounds [of y] have hi: "half_even y \<le> 2 ^ s" by linarith
  have f: "float32_nearest x = of_int (half_even y) / 2 ^ s"
    by (simp add: float32_nearest_def s_def y_def Let_def)
  have "(of_int (half_even y) :: real) \<le> of_int (2 ^ s)"
    using hi by (simp only: of_int_le_iff)
  then have "(of_int (half_even y) :: real) \<le> 2 ^ s" by simp
  then have "float32_nearest x \<le> 1"
    unfolding f by (simp add: divide_le_eq_1)
  moreover have "0 \<le> float32_nearest x"
    unfolding f using lo by simp
  ultimately show ?thesis by simp
qed

lemma binade_shift_numeral:
  "binade_shift (numeral k) s x =
     (if 2 ^ 23 \<le> x * 2 ^ s then s else binade_shift (pred_numeral k) (Suc s) x)"
  by (simp add: numeral_eq_Suc)

lemma float32_one_half_times_255: "float32_times_255_to_byte (1 / 2) = 127"
  by (simp add: float32_times_255_to_byte_def float32_nearest_def binade_shift_numeral
      half_even_def towards_zero_def Let_def)

lemma float32_127_over_255: "float32_byte_over_255 127 = 16711423 / 33554432"
  by (simp add: float32_byte_over_255_def float32_nearest_def binade_shift_numeral
      half_even_def Let_def)

subsection \<open>The elements of the output\<close>

text \<open>
  C9, amended: every element of a returned batch is the float32 nearest to \<open>k / 255\<close> for
  some integer \<open>0 \<le> k \<le> 255\<close>, and lies in \<open>[0, 1]\<close>, whatever the input elements are:
  each frame passes through an 8-bit image, and the bytes are divided by 255 in float32.
\<close>

theorem output_elements_float32:
  assumes "snd (process S L cfg images) = Inr out" and "in_range idx (shape out)"
    and "from_uint8 L = float32_byte_over_255"
  shows "\<exists>k\<le>255. elem out idx = float32_nearest (real k / 255) \<and>
           0 \<le> elem out idx \<and> elem out idx \<le> 1"
proof -
  from output_elements_quantised [OF assms(1,2)] obtain b :: "8 word"
    where b: "elem out idx = float32_byte_over_255 b"
    unfolding assms(3) by blast
  define k where "k = unat b"
  have le: "k \<le> 255"
    using unsigned_less [of b, where ?'a = nat] by (simp add: k_def)
  have e: "elem out idx = float32_nearest (real k / 255)"
    unfolding b float32_byte_over_255_def k_def ..
  from le have "0 \<le> real k / 255" "real k / 255 \<le> 1" by simp_all
  from float32_nearest_unit [OF this] e le show ?thesis by auto
qed

lemma example_first_element:
  "\<exists>out. snd (process example_system example_pillow example_config
             (Tensor (example_batch [1, 1, 1, 3]))) = Inr out \<and>
         shape out = [1, 1, 1, 3] \<and> elem out [0, 0, 0, 0] = 16711423 / 33554432"
proof -
  let ?t = "example_batch [1, 1, 1, 3]"
  let ?fnt = "fallback_font example_system (font_file (font example_config))
      (font_size example_config)"
  have sh: "shape ?t = [1, 1, 1, 3]" by (simp add: example_batch_simps)
  have lf: "fst (load_font example_system (font_file (font example_config))
      (font_size example_config)) = Inr ?fnt"
    by (simp add: load_font_fallback [OF loader_example])
  from process_valid_batch [OF example_config_colors sh zero_less_one
      example_batch_simps(2) pillow_returns_example lf]
  obtain out where out: "snd (process example_system example_pillow example_config (Tensor ?t))
      = Inr out" "shape out = [1, 1, 1, 3]"
    and fr: "snd (annotate_frame example_pillow example_config
        (fallback_font example_system (font_file (font example_config)) (font_size example_config))
        (Some (255, 255, 255)) None ?t 0) = Inr (select 0 out)"
    by auto
  from annotate_frame_returns [OF sh example_batch_simps(2) pillow_returns_example,
      of ?fnt example_config 0 "Some (255, 255, 255)" None] fr
  obtain pixels size where
    dc: "snd (draw_caption example_pillow example_config
        (fallback_font example_system (font_file (font example_config)) (font_size example_config))
        (Some (255, 255, 255)) None
        \<lparr>im_size = (1, 1), im_data = (\<lambda>idx. to_uint8 example_pillow (elem ?t (0 # idx)))\<rparr>
        (text_origin example_config (1, 1) size)
        (caption (prefix_text example_config) (num_padding example_config) 0))
      = Inr \<lparr>im_size = (1, 1), im_data = pixels\<rparr>"
    and sel: "select 0 out =
      \<lparr>shape = [1, 1, 3], elem = (\<lambda>idx. from_uint8 example_pillow (pixels idx))\<rparr>"
    by auto
  from dc have "pixels = (\<lambda>idx. float32_times_255_to_byte (1 / 2))"
    by (simp add: draw_caption_def example_pillow_def example_config_def example_batch_def Let_def)
  with sel have "elem (select 0 out) [0, 0, 0] = float32_byte_over_255 (float32_times_255_to_byte (1 / 2))"
    by (simp add: example_pillow_def)
  then have "elem out [0, 0, 0, 0] = 16711423 / 33554432"
    by (simp add: select_def float32_one_half_times_255 float32_127_over_255)
  with out show ?thesis by blast
qed

theorem output_elements_float32_witness:
  "\<exists>k\<le>255. elem (projr (snd (process example_system example_pillow example_config
                 (Tensor (example_batch [1, 1, 1, 3]))))) [0, 0, 0, 0] =
              float32_nearest (real k / 255)"
proof -
  from example_first_element obtain out where
    out: "snd (process example_system example_pillow example_config
      (Tensor (example_batch [1, 1, 1, 3]))) = Inr out" "shape out = [1, 1, 1, 3]"
    by blast
  have rng: "in_range [0, 0, 0, 0] (shape out)" by (simp add: in_range_def out(2))
  have fu: "from_uint8 example_pillow = float32_byte_over_255"
    by (simp add: example_pillow_def)
  from output_elements_float32 [OF out(1) rng fu]
  have "\<exists>k\<le>255. elem out [0, 0, 0, 0] = float32_nearest (real k / 255)"
    by blast
  then show ?thesis unfolding out(1) sum.sel .
qed

text \<open>
  The claim as stated, an exact multiple of \<open>1 / 255\<close>, fails: the element one half
  becomes the byte 127 and then the float32 nearest to \<open>127 / 255\<close>, which is
  \<open>16711423 / 2 ^ 25\<close> and lies strictly between \<open>127 / 255\<close> and \<open>128 / 255\<close>.
\<close>

theorem output_elements_not_multiples_counterexample:
  "127 / 255 < elem (projr (snd (process example_system example_pillow example_config
                 (Tensor (example_batch [1, 1, 1, 3]))))) [0, 0, 0, 0] \<and>
   elem (projr (snd (process example_system example_pillow example_config
                 (Tensor (example_batch [1, 1, 1, 3]))))) [0, 0, 0, 0] < 128 / 255"
proof -
  from example_first_element obtain out where
    "snd (process example_system example_pillow example_config
      (Tensor (example_batch [1, 1, 1, 3]))) = Inr out"
    "elem out [0, 0, 0, 0] = 16711423 / 33554432"
    by blast
  then show ?thesis by simp
qed

end
